theory Spec2Isabelle
  imports Main
begin

section \<open>The application descriptor\<close>

text \<open>
  A Python \<open>dict\<close> that arrives as a JSON object: string keys, in insertion order
  (the order \<open>.items()\<close> iterates in). The program never inspects the values, so
  their type is a parameter.
\<close>

type_synonym 'v dict = "(string \<times> 'v) list"

text \<open>
  \<open>class AppConfig(BaseModel)\<close>. The two fields with a default are \<open>secrets\<close>
  (default \<open>None\<close>) and \<open>external_access\<close> (default \<open>False\<close>).
\<close>

record 'v AppConfig =
  app_name :: string
  replicas :: int
  image_address :: string
  image_tag :: string
  domain_address :: string
  service_port :: int
  resources :: "'v dict"
  envs :: "'v dict"
  secrets :: "'v dict option"
  external_access :: bool

text \<open>
  A request body, after JSON decoding: each field of the schema is either absent
  (\<open>None\<close>) or present with a value of its declared type.
\<close>

record 'v RequestBody =
  body_app_name :: "string option"
  body_replicas :: "int option"
  body_image_address :: "string option"
  body_image_tag :: "string option"
  body_domain_address :: "string option"
  body_service_port :: "int option"
  body_resources :: "'v dict option"
  body_envs :: "'v dict option"
  body_secrets :: "'v dict option"
  body_external_access :: "bool option"

text \<open>
  The fields that \<open>AppConfig\<close> declares without a default are required: the names of
  those a body leaves out, in declaration order.
\<close>

definition missing_fields :: "'v RequestBody \<Rightarrow> string list" where
  "missing_fields b =
     (if body_app_name b = None then [''app_name''] else []) @
     (if body_replicas b = None then [''replicas''] else []) @
     (if body_image_address b = None then [''image_address''] else []) @
     (if body_image_tag b = None then [''image_tag''] else []) @
     (if body_domain_address b = None then [''domain_address''] else []) @
     (if body_service_port b = None then [''service_port''] else []) @
     (if body_resources b = None then [''resources''] else []) @
     (if body_envs b = None then [''envs''] else [])"

definition AppConfig_validate :: "'v RequestBody \<Rightarrow> string list + 'v AppConfig" where
  "AppConfig_validate b =
     (if missing_fields b \<noteq> [] then Inl (missing_fields b)
      else Inr \<lparr>app_name = the (body_app_name b),
                replicas = the (body_replicas b),
                image_address = the (body_image_address b),
                image_tag = the (body_image_tag b),
                domain_address = the (body_domain_address b),
                service_port = the (body_service_port b),
                resources = the (body_resources b),
                envs = the (body_envs b),
                secrets = body_secrets b,
                external_access = (case body_external_access b of None \<Rightarrow> False | Some x \<Rightarrow> x)\<rparr>)"

section \<open>Kubernetes objects\<close>

text \<open>
  The client's model classes, with the attributes the program sets. \<open>env_from\<close> is
  the one attribute set on one path only, so it is optional here.
\<close>

record V1ObjectMeta =
  meta_name :: "string option"
  meta_labels :: "string dict option"

record 'v V1Secret =
  v1secret_metadata :: V1ObjectMeta
  v1secret_data :: "'v dict option"

record V1ContainerPort =
  container_port :: int

record 'v V1EnvVar =
  env_name :: string
  env_value :: 'v

record 'v V1ResourceRequirements =
  requests :: "'v dict"

record V1SecretEnvSource =
  secret_source_name :: string

record V1EnvFromSource =
  secret_ref :: V1SecretEnvSource

record 'v V1Container =
  container_name :: string
  container_image :: string
  container_ports :: "V1ContainerPort list"
  container_env :: "'v V1EnvVar list"
  container_resources :: "'v V1ResourceRequirements"
  container_env_from :: "V1EnvFromSource list option"

record 'v V1PodSpec =
  containers :: "'v V1Container list"

record 'v V1PodTemplateSpec =
  template_metadata :: V1ObjectMeta
  template_spec :: "'v V1PodSpec"

record 'v V1DeploymentSpec =
  deployment_replicas :: int
  deployment_template :: "'v V1PodTemplateSpec"
  deployment_selector :: "(string dict) dict"

record 'v V1Deployment =
  deployment_api_version :: string
  deployment_kind :: string
  deployment_metadata :: V1ObjectMeta
  deployment_spec :: "'v V1DeploymentSpec"

record V1ServicePort =
  port :: int
  target_port :: int

record V1ServiceSpec =
  service_selector :: "string dict"
  service_ports :: "V1ServicePort list"
  service_type :: string

record V1Service =
  service_api_version :: string
  service_kind :: string
  service_metadata :: V1ObjectMeta
  service_spec :: V1ServiceSpec

record V1ServiceBackendPort =
  number :: int

record V1IngressServiceBackend =
  backend_service_name :: string
  backend_service_port :: V1ServiceBackendPort

record V1IngressBackend =
  backend_service :: V1IngressServiceBackend

record V1HTTPIngressPath =
  path :: string
  path_type :: string
  backend :: V1IngressBackend

record V1HTTPIngressRuleValue =
  paths :: "V1HTTPIngressPath list"

record V1IngressRule =
  host :: string
  http :: V1HTTPIngressRuleValue

record V1IngressSpec =
  rules :: "V1IngressRule list"

record V1Ingress =
  ingress_api_version :: string
  ingress_kind :: string
  ingress_metadata :: V1ObjectMeta
  ingress_spec :: V1IngressSpec

section \<open>The cluster API\<close>

text \<open>
  The four create operations of the client, each with its namespace and body.
\<close>

datatype 'v api_call =
    CreateNamespacedSecret string "'v V1Secret"
  | CreateNamespacedDeployment string "'v V1Deployment"
  | CreateNamespacedService string V1Service
  | CreateNamespacedIngress string V1Ingress

fun call_namespace :: "'v api_call \<Rightarrow> string" where
  "call_namespace (CreateNamespacedSecret ns b) = ns"
| "call_namespace (CreateNamespacedDeployment ns b) = ns"
| "call_namespace (CreateNamespacedService ns b) = ns"
| "call_namespace (CreateNamespacedIngress ns b) = ns"

text \<open>
  A call either returns (its return value is discarded by the program) or raises an
  \<open>Exception\<close>, of which the program only reads \<open>str(e)\<close>.
\<close>

datatype py_exception = PyException string

fun str :: "py_exception \<Rightarrow> string" where
  "str (PyException msg) = msg"

type_synonym outcome = "py_exception + unit"

text \<open>
  The program's only effect is the sequence of calls it makes. A trace lists the calls
  made so far, each with its outcome; the cluster is any function that decides the
  outcome of a call from the calls made before it.
\<close>

type_synonym 'v trace = "('v api_call \<times> outcome) list"

type_synonym 'v cluster = "'v trace \<Rightarrow> 'v api_call \<Rightarrow> outcome"

definition invoke :: "'v cluster \<Rightarrow> 'v api_call \<Rightarrow> 'v trace \<Rightarrow> outcome \<times> 'v trace" where
  "invoke api c tr = (api tr c, tr @ [(c, api tr c)])"

section \<open>The four helpers\<close>

text \<open>
  Each helper builds one object and submits it. The object, named after the helper's
  local variable that holds it, is a function of the helper's arguments; the helper
  itself is the call that submits it.
\<close>

definition secret :: "string \<Rightarrow> 'v dict option \<Rightarrow> 'v V1Secret" where
  "secret secret_name secret_data =
     \<lparr>v1secret_metadata = \<lparr>meta_name = Some secret_name, meta_labels = None\<rparr>,
      v1secret_data = secret_data\<rparr>"

definition create_secret ::
  "'v cluster \<Rightarrow> string \<Rightarrow> string \<Rightarrow> 'v dict option \<Rightarrow> 'v trace \<Rightarrow> outcome \<times> 'v trace" where
  "create_secret api namespace secret_name secret_data tr =
     invoke api (CreateNamespacedSecret namespace (secret secret_name secret_data)) tr"

text \<open>Python truthiness of an optional string: \<open>None\<close> and \<open>""\<close> are false.\<close>

fun truthy_str :: "string option \<Rightarrow> bool" where
  "truthy_str None = False"
| "truthy_str (Some s) = (s \<noteq> [])"

text \<open>
  The container, after the conditional assignment to \<open>container.env_from\<close>.
\<close>

definition container ::
  "string \<Rightarrow> string \<Rightarrow> string \<Rightarrow> 'v dict \<Rightarrow> 'v dict \<Rightarrow> string option \<Rightarrow> 'v V1Container" where
  "container app image' tag envs' resources' secret_name =
     (let c = \<lparr>container_name = app,
               container_image = image' @ '':'' @ tag,
               container_ports = [\<lparr>container_port = 80\<rparr>],
               container_env = map (\<lambda>(key, value). \<lparr>env_name = key, env_value = value\<rparr>) envs',
               container_resources = \<lparr>requests = resources'\<rparr>,
               container_env_from = None\<rparr>
      in if truthy_str secret_name
         then c\<lparr>container_env_from :=
                  Some [\<lparr>secret_ref = \<lparr>secret_source_name = the secret_name\<rparr>\<rparr>]\<rparr>
         else c)"

definition deployment ::
  "string \<Rightarrow> int \<Rightarrow> string \<Rightarrow> string \<Rightarrow> 'v dict \<Rightarrow> 'v dict \<Rightarrow> string option \<Rightarrow> 'v V1Deployment" where
  "deployment app replicas' image' tag envs' resources' secret_name =
     (let template = \<lparr>template_metadata = \<lparr>meta_name = None, meta_labels = Some [(''app'', app)]\<rparr>,
                      template_spec =
                        \<lparr>containers = [container app image' tag envs' resources' secret_name]\<rparr>\<rparr>;
          spec = \<lparr>deployment_replicas = replicas',
                  deployment_template = template,
                  deployment_selector = [(''matchLabels'', [(''app'', app)])]\<rparr>
      in \<lparr>deployment_api_version = ''apps/v1'',
          deployment_kind = ''Deployment'',
          deployment_metadata = \<lparr>meta_name = Some app, meta_labels = None\<rparr>,
          deployment_spec = spec\<rparr>)"

definition create_deployment ::
  "'v cluster \<Rightarrow> string \<Rightarrow> string \<Rightarrow> int \<Rightarrow> string \<Rightarrow> string \<Rightarrow> 'v dict \<Rightarrow> 'v dict \<Rightarrow>
   string option \<Rightarrow> 'v trace \<Rightarrow> outcome \<times> 'v trace" where
  "create_deployment api namespace app replicas' image' tag envs' resources' secret_name tr =
     invoke api
       (CreateNamespacedDeployment namespace
          (deployment app replicas' image' tag envs' resources' secret_name)) tr"

definition service :: "string \<Rightarrow> int \<Rightarrow> V1Service" where
  "service app service_port' =
     \<lparr>service_api_version = ''v1'',
      service_kind = ''Service'',
      service_metadata = \<lparr>meta_name = Some app, meta_labels = None\<rparr>,
      service_spec = \<lparr>service_selector = [(''app'', app)],
                      service_ports = [\<lparr>port = service_port', target_port = 80\<rparr>],
                      service_type = ''ClusterIP''\<rparr>\<rparr>"

definition create_service ::
  "'v cluster \<Rightarrow> string \<Rightarrow> string \<Rightarrow> int \<Rightarrow> 'v trace \<Rightarrow> outcome \<times> 'v trace" where
  "create_service api namespace app service_port' tr =
     invoke api (CreateNamespacedService namespace (service app service_port')) tr"

definition ingress :: "string \<Rightarrow> string \<Rightarrow> int \<Rightarrow> V1Ingress" where
  "ingress app domain service_port' =
     \<lparr>ingress_api_version = ''networking.k8s.io/v1'',
      ingress_kind = ''Ingress'',
      ingress_metadata = \<lparr>meta_name = Some app, meta_labels = None\<rparr>,
      ingress_spec = \<lparr>rules = [\<lparr>host = domain,
        http = \<lparr>paths = [\<lparr>path = ''/'',
                          path_type = ''Prefix'',
                          backend = \<lparr>backend_service =
                            \<lparr>backend_service_name = app,
                             backend_service_port = \<lparr>number = service_port'\<rparr>\<rparr>\<rparr>\<rparr>]\<rparr>\<rparr>]\<rparr>\<rparr>"

definition create_ingress ::
  "'v cluster \<Rightarrow> string \<Rightarrow> string \<Rightarrow> string \<Rightarrow> int \<Rightarrow> 'v trace \<Rightarrow> outcome \<times> 'v trace" where
  "create_ingress api namespace app domain service_port' tr =
     invoke api (CreateNamespacedIngress namespace (ingress app domain service_port')) tr"

section \<open>The request handler\<close>

text \<open>Python truthiness of an optional dict: \<open>None\<close> and \<open>{}\<close> are false.\<close>

fun truthy_dict :: "'v dict option \<Rightarrow> bool" where
  "truthy_dict None = False"
| "truthy_dict (Some d) = (d \<noteq> [])"

record HTTPException =
  status_code :: int
  detail :: string

text \<open>
  The statements inside \<open>try\<close>: the first helper that raises ends the block with its
  exception; otherwise the block returns the success dict.
\<close>

definition deploy_app_try ::
  "'v cluster \<Rightarrow> 'v AppConfig \<Rightarrow> 'v trace \<Rightarrow> (py_exception + string dict) \<times> 'v trace" where
  "deploy_app_try api config tr =
     (let namespace = ''default'' in
      case (if truthy_dict (secrets config)
            then create_secret api namespace (app_name config) (secrets config) tr
            else (Inr (), tr)) of
        (Inl e, tr1) \<Rightarrow> (Inl e, tr1)
      | (Inr _, tr1) \<Rightarrow>
      (case create_deployment api namespace (app_name config) (replicas config)
              (image_address config) (image_tag config) (envs config) (resources config)
              (if truthy_dict (secrets config) then Some (app_name config) else None) tr1 of
        (Inl e, tr2) \<Rightarrow> (Inl e, tr2)
      | (Inr _, tr2) \<Rightarrow>
      (case create_service api namespace (app_name config) (service_port config) tr2 of
        (Inl e, tr3) \<Rightarrow> (Inl e, tr3)
      | (Inr _, tr3) \<Rightarrow>
      (case (if external_access config
             then create_ingress api namespace (app_name config) (domain_address config)
                    (service_port config) tr3
             else (Inr (), tr3)) of
        (Inl e, tr4) \<Rightarrow> (Inl e, tr4)
      | (Inr _, tr4) \<Rightarrow>
          (Inr [(''status'', ''success''),
                (''message'', ''Application '' @ app_name config @ '' deployed successfully'')],
           tr4)))))"

text \<open>
  \<open>deploy_app\<close>: the \<open>try\<close> block under its \<open>except Exception as e\<close>, which raises
  \<open>HTTPException(status_code=500, detail=str(e))\<close>.
\<close>

definition deploy_app ::
  "'v cluster \<Rightarrow> 'v AppConfig \<Rightarrow> 'v trace \<Rightarrow> (HTTPException + string dict) \<times> 'v trace" where
  "deploy_app api config tr =
     (case deploy_app_try api config tr of
        (Inl e, tr') \<Rightarrow> (Inl \<lparr>status_code = 500, detail = str e\<rparr>, tr')
      | (Inr r, tr') \<Rightarrow> (Inr r, tr'))"

text \<open>
  The route \<open>@app.post("/deploy/")\<close>: the framework validates the body against
  \<open>AppConfig\<close> and answers 422 with the validation errors without calling the handler
  when it fails; it answers a raised \<open>HTTPException\<close> with its status code and the JSON
  object \<open>{"detail": ...}\<close>, and a returned dict with status 200.
\<close>

datatype content = JsonObject "string dict" | ValidationErrors "string list"

record http_response =
  response_status :: int
  response_content :: content

definition respond :: "HTTPException + string dict \<Rightarrow> http_response" where
  "respond r =
     (case r of
        Inl exc \<Rightarrow> \<lparr>response_status = status_code exc,
                    response_content = JsonObject [(''detail'', detail exc)]\<rparr>
      | Inr d \<Rightarrow> \<lparr>response_status = 200, response_content = JsonObject d\<rparr>)"

definition post_deploy ::
  "'v cluster \<Rightarrow> 'v RequestBody \<Rightarrow> 'v trace \<Rightarrow> http_response \<times> 'v trace" where
  "post_deploy api b tr =
     (case AppConfig_validate b of
        Inl errs \<Rightarrow> (\<lparr>response_status = 422, response_content = ValidationErrors errs\<rparr>, tr)
      | Inr config \<Rightarrow>
          (case deploy_app api config tr of (r, tr') \<Rightarrow> (respond r, tr')))"

section \<open>Observing a run\<close>

text \<open>The calls one run of the handler adds to the trace, with their outcomes.\<close>

definition new_events :: "'v cluster \<Rightarrow> 'v AppConfig \<Rightarrow> 'v trace \<Rightarrow> 'v trace" where
  "new_events api config tr = drop (length tr) (snd (deploy_app api config tr))"

datatype call_kind = SecretCall | DeploymentCall | ServiceCall | IngressCall

fun kind_of :: "'v api_call \<Rightarrow> call_kind" where
  "kind_of (CreateNamespacedSecret ns b) = SecretCall"
| "kind_of (CreateNamespacedDeployment ns b) = DeploymentCall"
| "kind_of (CreateNamespacedService ns b) = ServiceCall"
| "kind_of (CreateNamespacedIngress ns b) = IngressCall"

fun kinds :: "'v trace \<Rightarrow> call_kind list" where
  "kinds [] = []"
| "kinds ((c, out) # evs) = kind_of c # kinds evs"

text \<open>
  Two auxiliary notions for the proofs. \<open>attempt\<close> submits a list of calls in order and
  stops after the first one that raises; \<open>first_error\<close> reads the exception of the first
  raising call off a list of events.
\<close>

fun attempt :: "'v cluster \<Rightarrow> 'v trace \<Rightarrow> 'v api_call list \<Rightarrow> 'v trace" where
  "attempt api tr [] = []"
| "attempt api tr (c # cs) =
     (c, api tr c) #
     (case api tr c of Inl e \<Rightarrow> [] | Inr u \<Rightarrow> attempt api (tr @ [(c, api tr c)]) cs)"

fun first_error :: "'v trace \<Rightarrow> py_exception option" where
  "first_error [] = None"
| "first_error ((c, Inl e) # evs) = Some e"
| "first_error ((c, Inr u) # evs) = first_error evs"

text \<open>
  The calls of a run in which none raises, read off \<open>deploy_app\<close>: the handler is shown
  below to attempt exactly this list.
\<close>

definition planned_calls :: "'v AppConfig \<Rightarrow> 'v api_call list" where
  "planned_calls config =
     (if truthy_dict (secrets config)
      then [CreateNamespacedSecret ''default'' (secret (app_name config) (secrets config))]
      else []) @
     [CreateNamespacedDeployment ''default''
        (deployment (app_name config) (replicas config) (image_address config)
           (image_tag config) (envs config) (resources config)
           (if truthy_dict (secrets config) then Some (app_name config) else None)),
      CreateNamespacedService ''default'' (service (app_name config) (service_port config))] @
     (if external_access config
      then [CreateNamespacedIngress ''default''
              (ingress (app_name config) (domain_address config) (service_port config))]
      else [])"

text \<open>A cluster that accepts every call, and one that refuses every call.\<close>

definition accept_all :: "'v cluster" where
  "accept_all tr c = Inr ()"

definition refuse_all :: "'v cluster" where
  "refuse_all tr c = Inl (PyException ''boom'')"

text \<open>A cluster that refuses the calls of one kind, as on a name collision.\<close>

definition refuse_kind :: "call_kind \<Rightarrow> 'v cluster" where
  "refuse_kind k tr c = (if kind_of c = k then Inl (PyException ''conflict'') else Inr ())"

text \<open>The descriptor of the round-trip example: no \<open>secrets\<close> field, so the default.\<close>

definition demo :: "string AppConfig" where
  "demo = \<lparr>app_name = ''demo'', replicas = 2, image_address = ''nginx'', image_tag = ''1.25'',
            domain_address = ''demo.example.com'', service_port = 8080,
            resources = [(''cpu'', ''100m'')], envs = [(''ENV'', ''prod'')],
            secrets = None, external_access = True\<rparr>"

text \<open>The same application without an Ingress, and with one secret.\<close>

definition demo_internal :: "string AppConfig" where
  "demo_internal = demo\<lparr>external_access := False\<rparr>"

definition demo_secret :: "string AppConfig" where
  "demo_secret = demo\<lparr>secrets := Some [(''TOKEN'', ''c2VjcmV0'')]\<rparr>"

text \<open>
  A request body for the internal application that leaves out \<open>domain_address\<close>
  (and \<open>secrets\<close>).
\<close>

definition body_without_domain :: "string RequestBody" where
  "body_without_domain =
     \<lparr>body_app_name = Some ''demo'', body_replicas = Some 2,
      body_image_address = Some ''nginx'', body_image_tag = Some ''1.25'',
      body_domain_address = None, body_service_port = Some 8080,
      body_resources = Some [(''cpu'', ''100m'')], body_envs = Some [(''ENV'', ''prod'')],
      body_secrets = None, body_external_access = Some False\<rparr>"

section \<open>The handler as a short-circuiting sequence of calls\<close>

lemmas run_defs = deploy_app_def deploy_app_try_def create_secret_def create_deployment_def
  create_service_def create_ingress_def invoke_def Let_def

text \<open>
  The handler attempts its planned calls in order, stops at the first that raises, and
  turns that exception into the 500 error; with no exception it returns the success dict.
\<close>

lemma deploy_app_attempt:
  "deploy_app api config tr =
     ((case first_error (attempt api tr (planned_calls config)) of
         Some e \<Rightarrow> Inl \<lparr>status_code = 500, detail = str e\<rparr>
       | None \<Rightarrow> Inr [(''status'', ''success''),
                      (''message'', ''Application '' @ app_name config @ '' deployed successfully'')]),
      tr @ attempt api tr (planned_calls config))"
  by (simp add: run_defs planned_calls_def split: sum.splits)

lemma new_events_attempt: "new_events api config tr = attempt api tr (planned_calls config)"
  by (simp add: new_events_def deploy_app_attempt)

lemma deploy_app_trace: "snd (deploy_app api config tr) = tr @ new_events api config tr"
  by (simp add: new_events_attempt deploy_app_attempt)

lemma deploy_app_result:
  "fst (deploy_app api config tr) =
     (case first_error (new_events api config tr) of
        Some e \<Rightarrow> Inl \<lparr>status_code = 500, detail = str e\<rparr>
      | None \<Rightarrow> Inr [(''status'', ''success''),
                     (''message'', ''Application '' @ app_name config @ '' deployed successfully'')])"
  by (simp add: new_events_attempt deploy_app_attempt)

lemma attempt_calls_planned: "ev \<in> set (attempt api tr cs) \<Longrightarrow> fst ev \<in> set cs"
  by (induction cs arbitrary: tr) (auto split: sum.splits)

lemma attempt_error_last:
  "i < length (attempt api tr cs) \<Longrightarrow> snd (attempt api tr cs ! i) = Inl e \<Longrightarrow>
   Suc i = length (attempt api tr cs) \<and> first_error (attempt api tr cs) = Some e"
proof (induction cs arbitrary: tr i)
  case Nil
  then show ?case by simp
next
  case (Cons c cs)
  show ?case
  proof (cases "api tr c")
    case (Inl x)
    with Cons.prems show ?thesis by simp
  next
    case (Inr u)
    show ?thesis
    proof (cases i)
      case 0
      with Cons.prems Inr show ?thesis by simp
    next
      case (Suc j)
      with Cons.prems Inr Cons.IH [of j "tr @ [(c, api tr c)]"] show ?thesis by simp
    qed
  qed
qed

lemma attempt_all_ok:
  "\<forall>ev \<in> set (attempt api tr cs). snd ev = Inr () \<Longrightarrow>
   first_error (attempt api tr cs) = None \<and> map fst (attempt api tr cs) = cs"
proof (induction cs arbitrary: tr)
  case Nil
  then show ?case by simp
next
  case (Cons c cs)
  from Cons.prems have ok: "api tr c = Inr ()" by simp
  with Cons.prems have "\<forall>ev \<in> set (attempt api (tr @ [(c, Inr ())]) cs). snd ev = Inr ()"
    by simp
  from Cons.IH [OF this] ok show ?case by simp
qed

lemma attempt_upto:
  "\<forall>x \<in> set cs. P x \<Longrightarrow>
   \<forall>ev \<in> set (attempt api tr (cs @ [c])). P (fst ev) \<longrightarrow> snd ev = Inr () \<Longrightarrow>
   \<exists>out. attempt api tr (cs @ [c]) = map (\<lambda>x. (x, Inr ())) cs @ [(c, out)]"
proof (induction cs arbitrary: tr)
  case Nil
  then show ?case by (simp split: sum.splits)
next
  case (Cons x cs)
  from Cons.prems have ok: "api tr x = Inr ()" by simp
  from Cons.prems have rest: "\<forall>x \<in> set cs. P x" by simp
  from Cons.prems ok
  have "\<forall>ev \<in> set (attempt api (tr @ [(x, Inr ())]) (cs @ [c])). P (fst ev) \<longrightarrow> snd ev = Inr ()"
    by simp
  from Cons.IH [OF rest this] ok show ?case by simp
qed

lemma kinds_map: "kinds (map (\<lambda>x. (x, out)) cs) = map kind_of cs"
  by (induction cs) simp_all

section \<open>Namespace\<close>

text \<open>
  C8. Every create call that a run of the handler performs, whatever the descriptor and
  whatever the cluster answers, targets the namespace \<open>default\<close>.
\<close>

theorem deploy_app_namespace_default:
  "\<forall>ev \<in> set (new_events api config tr). call_namespace (fst ev) = ''default''"
proof
  fix ev
  assume "ev \<in> set (new_events api config tr)"
  then have "fst ev \<in> set (planned_calls config)"
    by (simp add: new_events_attempt attempt_calls_planned)
  then show "call_namespace (fst ev) = ''default''"
    by (auto simp: planned_calls_def split: if_splits)
qed

theorem deploy_app_namespace_default_witness:
  "call_namespace (fst (hd (new_events accept_all demo_secret []))) = ''default'' \<and>
   call_namespace (fst (last (new_events accept_all demo_secret []))) = ''default'' \<and>
   kinds (new_events accept_all demo_secret []) =
     [SecretCall, DeploymentCall, ServiceCall, IngressCall]"
proof -
  have evs: "new_events accept_all demo_secret [] =
    map (\<lambda>c. (c, Inr ())) (planned_calls demo_secret)"
    by (simp add: new_events_attempt planned_calls_def accept_all_def demo_secret_def demo_def)
  have ne: "new_events accept_all demo_secret [] \<noteq> []"
    by (simp add: evs planned_calls_def)
  from ne deploy_app_namespace_default [of accept_all demo_secret "[]"]
  have "call_namespace (fst (hd (new_events accept_all demo_secret []))) = ''default''"
    and "call_namespace (fst (last (new_events accept_all demo_secret []))) = ''default''"
    by simp_all
  moreover have "kinds (new_events accept_all demo_secret []) =
     [SecretCall, DeploymentCall, ServiceCall, IngressCall]"
    unfolding evs kinds_map by (simp add: planned_calls_def demo_secret_def demo_def)
  ultimately show ?thesis by simp
qed

section \<open>Which calls a run performs\<close>

lemma container_env_from_secret:
  "app \<noteq> [] \<Longrightarrow> container_env_from (container app i t e r (Some app)) =
     Some [\<lparr>secret_ref = \<lparr>secret_source_name = app\<rparr>\<rparr>]"
  by (simp add: container_def)

lemma container_env_from_none: "container_env_from (container app i t e r None) = None"
  by (simp add: container_def)

text \<open>
  The test \<open>if secret_name:\<close> is also false for the empty string: a descriptor whose
  \<open>app_name\<close> is \<open>""\<close> gets no \<open>env_from\<close> even when a secret name is passed.
\<close>

lemma container_env_from_empty_name:
  "container_env_from (container [] i t e r (Some [])) = None"
  by (simp add: container_def)

lemma deployment_containers:
  "containers (template_spec (deployment_template (deployment_spec (deployment app n i t e r s)))) =
     [container app i t e r s]"
  by (simp add: deployment_def)

text \<open>
  C1, as amended. For a descriptor whose \<open>secrets\<close> is empty or absent and whose
  \<open>external_access\<close> is false, a run performs no Secret create and no Ingress create.
  It performs the Deployment create first; when that call returns, the Service create
  follows and the run has made exactly these two calls, in that order; when the
  Deployment create raises, it is the only call of the run.
\<close>

theorem deploy_app_plain_calls:
  assumes "secrets config = None \<or> secrets config = Some []"
    and "\<not> external_access config"
  shows "(\<exists>dep e. new_events api config tr =
            [(CreateNamespacedDeployment ''default'' dep, Inl e)]) \<or>
         (\<exists>dep svc out. new_events api config tr =
            [(CreateNamespacedDeployment ''default'' dep, Inr ()),
             (CreateNamespacedService ''default'' svc, out)])"
proof -
  from assms(1) have "\<not> truthy_dict (secrets config)" by auto
  with assms(2) obtain dep svc where
    plan: "planned_calls config =
      [CreateNamespacedDeployment ''default'' dep, CreateNamespacedService ''default'' svc]"
    by (simp add: planned_calls_def)
  show ?thesis
  proof (cases "api tr (CreateNamespacedDeployment ''default'' dep)")
    case (Inl e)
    with plan show ?thesis by (simp add: new_events_attempt)
  next
    case (Inr u)
    with plan show ?thesis by (simp add: new_events_attempt split: sum.splits)
  qed
qed

text \<open>
  The example application without Ingress, on a cluster that accepts every call: the
  Deployment create and the Service create, both returning.
\<close>

theorem deploy_app_plain_calls_witness:
  "(secrets demo_internal = None \<or> secrets demo_internal = Some []) \<and>
   \<not> external_access demo_internal \<and>
   (\<exists>dep svc. new_events accept_all demo_internal [] =
            [(CreateNamespacedDeployment ''default'' dep, Inr ()),
             (CreateNamespacedService ''default'' svc, Inr ())])"
proof -
  have h1: "secrets demo_internal = None \<or> secrets demo_internal = Some []"
    by (simp add: demo_internal_def demo_def)
  have h2: "\<not> external_access demo_internal"
    by (simp add: demo_internal_def demo_def)
  have ok: "\<forall>ev \<in> set (new_events accept_all demo_internal []). snd ev = Inr ()"
    by (simp add: new_events_attempt planned_calls_def accept_all_def demo_internal_def demo_def)
  from deploy_app_plain_calls [OF h1 h2, of accept_all "[]"] ok have
    "\<exists>dep svc. new_events accept_all demo_internal [] =
            [(CreateNamespacedDeployment ''default'' dep, Inr ()),
             (CreateNamespacedService ''default'' svc, Inr ())]"
    by auto
  with h1 h2 show ?thesis by blast
qed

text \<open>
  C1 as stated fails when the Deployment create raises: the same descriptor on a
  cluster that refuses every call makes one call, not two.
\<close>

theorem deploy_app_plain_calls_counterexample:
  "secrets demo_internal = None \<and> \<not> external_access demo_internal \<and>
   kinds (new_events refuse_all demo_internal []) = [DeploymentCall]"
  by (simp add: new_events_attempt planned_calls_def refuse_all_def demo_internal_def demo_def)

text \<open>
  C2, as amended. For a descriptor whose \<open>secrets\<close> is non-empty, the first call of a
  run is the Secret create, for a secret named \<open>app_name\<close>. When that call raises, it is
  the only call of the run. When it returns, the Deployment create is the next call; the
  Deployment has a single container, and for a non-empty \<open>app_name\<close> that container
  carries exactly one \<open>env_from\<close> reference, to the secret named \<open>app_name\<close>.
\<close>

theorem deploy_app_secret_then_deployment:
  assumes "secrets config = Some d" and "d \<noteq> []"
  shows "\<exists>sec out rest. new_events api config tr = (CreateNamespacedSecret ''default'' sec, out) # rest
     \<and> meta_name (v1secret_metadata sec) = Some (app_name config)
     \<and> (case out of
          Inl e \<Rightarrow> rest = []
        | Inr u \<Rightarrow> (\<exists>dep out' rest' c.
             rest = (CreateNamespacedDeployment ''default'' dep, out') # rest'
           \<and> containers (template_spec (deployment_template (deployment_spec dep))) = [c]
           \<and> (app_name config \<noteq> [] \<longrightarrow> container_env_from c =
                 Some [\<lparr>secret_ref = \<lparr>secret_source_name = app_name config\<rparr>\<rparr>])))"
proof -
  from assms have t: "truthy_dict (secrets config)" by simp
  define sec where "sec = secret (app_name config) (secrets config)"
  define dep where "dep = deployment (app_name config) (replicas config) (image_address config)
           (image_tag config) (envs config) (resources config) (Some (app_name config))"
  from t obtain cs where
    plan: "planned_calls config =
      CreateNamespacedSecret ''default'' sec # CreateNamespacedDeployment ''default'' dep # cs"
    by (simp add: planned_calls_def sec_def dep_def)
  have name: "meta_name (v1secret_metadata sec) = Some (app_name config)"
    by (simp add: sec_def secret_def)
  have c: "containers (template_spec (deployment_template (deployment_spec dep))) =
     [container (app_name config) (image_address config)
           (image_tag config) (envs config) (resources config) (Some (app_name config))]"
    by (simp add: dep_def deployment_containers)
  show ?thesis
  proof (cases "api tr (CreateNamespacedSecret ''default'' sec)")
    case (Inl e)
    with plan name show ?thesis by (simp add: new_events_attempt)
  next
    case (Inr u)
    with plan name c show ?thesis
      by (simp add: new_events_attempt container_env_from_secret)
  qed
qed

text \<open>
  The example application with one secret, on a cluster that accepts every call.
\<close>

theorem deploy_app_secret_then_deployment_witness:
  "\<exists>sec dep rest c. new_events accept_all demo_secret [] =
      (CreateNamespacedSecret ''default'' sec, Inr ()) #
      (CreateNamespacedDeployment ''default'' dep, Inr ()) # rest
     \<and> meta_name (v1secret_metadata sec) = Some ''demo''
     \<and> containers (template_spec (deployment_template (deployment_spec dep))) = [c]
     \<and> container_env_from c = Some [\<lparr>secret_ref = \<lparr>secret_source_name = ''demo''\<rparr>\<rparr>]"
proof -
  have h: "secrets demo_secret = Some [(''TOKEN'', ''c2VjcmV0'')]"
    by (simp add: demo_secret_def)
  have n: "app_name demo_secret = ''demo''"
    by (simp add: demo_secret_def demo_def)
  have ok: "\<forall>ev \<in> set (new_events accept_all demo_secret []). snd ev = Inr ()"
    by (simp add: new_events_attempt planned_calls_def accept_all_def demo_secret_def demo_def)
  from deploy_app_secret_then_deployment [OF h, of accept_all "[]"] ok n show ?thesis
    by (fastforce split: sum.splits)
qed

text \<open>
  C2 as stated fails when the Secret create raises: the descriptor has a non-empty
  \<open>secrets\<close>, and the run makes the Secret create and no Deployment create.
\<close>

theorem deploy_app_secret_then_deployment_counterexample:
  "secrets demo_secret = Some [(''TOKEN'', ''c2VjcmV0'')] \<and>
   kinds (new_events refuse_all demo_secret []) = [SecretCall]"
  by (simp add: new_events_attempt planned_calls_def refuse_all_def demo_secret_def demo_def)

section \<open>The objects a run submits\<close>

lemma planned_calls_cases:
  assumes "c \<in> set (planned_calls config)"
  obtains
    (Secret) "c = CreateNamespacedSecret ''default'' (secret (app_name config) (secrets config))"
      "truthy_dict (secrets config)"
  | (Deployment) "c = CreateNamespacedDeployment ''default''
        (deployment (app_name config) (replicas config) (image_address config)
           (image_tag config) (envs config) (resources config)
           (if truthy_dict (secrets config) then Some (app_name config) else None))"
  | (Service) "c = CreateNamespacedService ''default''
        (service (app_name config) (service_port config))"
  | (Ingress) "c = CreateNamespacedIngress ''default''
        (ingress (app_name config) (domain_address config) (service_port config))"
      "external_access config"
  using assms by (auto simp: planned_calls_def split: if_splits)

lemma new_events_planned:
  "ev \<in> set (new_events api config tr) \<Longrightarrow> fst ev \<in> set (planned_calls config)"
  by (simp add: new_events_attempt attempt_calls_planned)

lemma container_fields:
  "container_image (container app i t e r s) = i @ '':'' @ t"
  "container_ports (container app i t e r s) = [\<lparr>container_port = 80\<rparr>]"
  "container_env (container app i t e r s) =
     map (\<lambda>(key, value). \<lparr>env_name = key, env_value = value\<rparr>) e"
  by (simp_all add: container_def Let_def)

lemma deployment_replicas_eq:
  "deployment_replicas (deployment_spec (deployment app n i t e r s)) = n"
  by (simp add: deployment_def)

lemma ingress_rules:
  "rules (ingress_spec (ingress app domain p)) =
     [\<lparr>host = domain,
           http = \<lparr>paths = [\<lparr>path = ''/'', path_type = ''Prefix'',
                             backend = \<lparr>backend_service =
                               \<lparr>backend_service_name = app,
                                backend_service_port = \<lparr>number = p\<rparr>\<rparr>\<rparr>\<rparr>]\<rparr>\<rparr>]"
  by (simp add: ingress_def)

text \<open>Two runs of the round-trip example: every call accepted, and the Service refused.\<close>

lemma demo_accepted:
  "new_events accept_all demo [] =
      [(CreateNamespacedDeployment ''default''
          (deployment ''demo'' 2 ''nginx'' ''1.25'' [(''ENV'', ''prod'')] [(''cpu'', ''100m'')] None), Inr ()),
       (CreateNamespacedService ''default'' (service ''demo'' 8080), Inr ()),
       (CreateNamespacedIngress ''default'' (ingress ''demo'' ''demo.example.com'' 8080), Inr ())]"
  by (simp add: new_events_attempt planned_calls_def accept_all_def demo_def)

lemma demo_refused_service:
  "new_events (refuse_kind ServiceCall) demo [] =
     [(CreateNamespacedDeployment ''default''
         (deployment ''demo'' 2 ''nginx'' ''1.25'' [(''ENV'', ''prod'')] [(''cpu'', ''100m'')] None),
       Inr ()),
      (CreateNamespacedService ''default'' (service ''demo'' 8080),
       Inl (PyException ''conflict''))]"
  by (simp add: new_events_attempt planned_calls_def refuse_kind_def demo_def)

text \<open>
  C3. For a descriptor with \<open>external_access\<close> true, in a run where every Secret,
  Deployment and Service create that is made returns, the last two calls are the Service
  create and then the Ingress create (no Ingress create comes earlier), and the submitted
  Ingress has exactly one rule: host \<open>domain_address\<close>, with one HTTP path \<open>/\<close> of path
  type \<open>Prefix\<close> whose backend is the service \<open>app_name\<close> on port number
  \<open>service_port\<close>.
\<close>

theorem deploy_app_ingress_after_service:
  assumes "external_access config"
    and "\<forall>ev \<in> set (new_events api config tr). kind_of (fst ev) \<noteq> IngressCall \<longrightarrow> snd ev = Inr ()"
  shows "\<exists>pre svc ing out. new_events api config tr =
           pre @ [(CreateNamespacedService ''default'' svc, Inr ()),
                  (CreateNamespacedIngress ''default'' ing, out)]
     \<and> IngressCall \<notin> set (kinds pre)
     \<and> rules (ingress_spec ing) =
         [\<lparr>host = domain_address config,
           http = \<lparr>paths = [\<lparr>path = ''/'', path_type = ''Prefix'',
                             backend = \<lparr>backend_service =
                               \<lparr>backend_service_name = app_name config,
                                backend_service_port = \<lparr>number = service_port config\<rparr>\<rparr>\<rparr>\<rparr>]\<rparr>\<rparr>]"
proof -
  define ing where
    "ing = ingress (app_name config) (domain_address config) (service_port config)"
  define svc where "svc = service (app_name config) (service_port config)"
  from assms(1) obtain cs where
    plan: "planned_calls config =
      (cs @ [CreateNamespacedService ''default'' svc]) @ [CreateNamespacedIngress ''default'' ing]"
    and cs: "\<forall>x \<in> set cs. kind_of x \<noteq> IngressCall"
    by (simp add: planned_calls_def ing_def svc_def)
  from cs have pre: "\<forall>x \<in> set (cs @ [CreateNamespacedService ''default'' svc]).
      kind_of x \<noteq> IngressCall"
    by simp
  from assms(2) have
    "\<forall>ev \<in> set (attempt api tr
        ((cs @ [CreateNamespacedService ''default'' svc]) @ [CreateNamespacedIngress ''default'' ing])).
      kind_of (fst ev) \<noteq> IngressCall \<longrightarrow> snd ev = Inr ()"
    by (simp only: new_events_attempt plan)
  from attempt_upto [where P = "\<lambda>x. kind_of x \<noteq> IngressCall", OF pre this]
  obtain out where
    "new_events api config tr =
       map (\<lambda>x. (x, Inr ())) cs @
       [(CreateNamespacedService ''default'' svc, Inr ()),
        (CreateNamespacedIngress ''default'' ing, out)]"
    by (auto simp: new_events_attempt plan)
  moreover from cs have "IngressCall \<notin> set (kinds (map (\<lambda>x. (x, Inr ())) cs))"
    by (auto simp: kinds_map)
  ultimately show ?thesis
    unfolding ing_def ingress_rules [symmetric] by blast
qed

text \<open>The round-trip example on a cluster that accepts every call.\<close>

theorem deploy_app_ingress_after_service_witness:
  "external_access demo \<and>
   (\<exists>dep svc ing. new_events accept_all demo [] =
      [(CreateNamespacedDeployment ''default'' dep, Inr ()),
       (CreateNamespacedService ''default'' svc, Inr ()),
       (CreateNamespacedIngress ''default'' ing, Inr ())]
     \<and> rules (ingress_spec ing) =
         [\<lparr>host = ''demo.example.com'',
           http = \<lparr>paths = [\<lparr>path = ''/'', path_type = ''Prefix'',
                             backend = \<lparr>backend_service =
                               \<lparr>backend_service_name = ''demo'',
                                backend_service_port = \<lparr>number = 8080\<rparr>\<rparr>\<rparr>\<rparr>]\<rparr>\<rparr>])"
proof -
  have h: "external_access demo" by (simp add: demo_def)
  have ok: "\<forall>ev \<in> set (new_events accept_all demo []).
      kind_of (fst ev) \<noteq> IngressCall \<longrightarrow> snd ev = Inr ()"
    unfolding demo_accepted by simp
  have fields: "domain_address demo = ''demo.example.com''" "app_name demo = ''demo''"
    "service_port demo = 8080"
    by (simp_all add: demo_def)
  from deploy_app_ingress_after_service [OF h ok] obtain pre svc ing out where
    shape: "new_events accept_all demo [] =
           pre @ [(CreateNamespacedService ''default'' svc, Inr ()),
                  (CreateNamespacedIngress ''default'' ing, out)]"
    and r: "rules (ingress_spec ing) =
         [\<lparr>host = ''demo.example.com'',
           http = \<lparr>paths = [\<lparr>path = ''/'', path_type = ''Prefix'',
                             backend = \<lparr>backend_service =
                               \<lparr>backend_service_name = ''demo'',
                                backend_service_port = \<lparr>number = 8080\<rparr>\<rparr>\<rparr>\<rparr>]\<rparr>\<rparr>]"
    unfolding fields by blast
  from shape r h show ?thesis unfolding demo_accepted by auto
qed

text \<open>
  C5. For the round-trip descriptor (\<open>demo\<close>: app \<open>demo\<close>, 2 replicas, image
  \<open>nginx\<close> tag \<open>1.25\<close>, domain \<open>demo.example.com\<close>, service port 8080, resources
  \<open>cpu: 100m\<close>, envs \<open>ENV: prod\<close>, external access), on any cluster: every Deployment
  a run submits has \<open>spec.replicas = 2\<close> and one container, with image \<open>nginx:1.25\<close>
  and exactly the env var \<open>ENV=prod\<close>; every Service it submits has the single port
  entry \<open>port = 8080, targetPort = 80\<close>; every Ingress it submits routes host
  \<open>demo.example.com\<close>, path \<open>/\<close>, to service \<open>demo\<close> on port 8080.
\<close>

theorem deploy_app_demo_objects:
  "\<forall>ev \<in> set (new_events api demo tr).
     (case fst ev of
        CreateNamespacedSecret ns sec \<Rightarrow> True
      | CreateNamespacedDeployment ns dep \<Rightarrow>
          deployment_replicas (deployment_spec dep) = 2 \<and>
          (\<exists>c. containers (template_spec (deployment_template (deployment_spec dep))) = [c] \<and>
               container_image c = ''nginx:1.25'' \<and>
               container_env c = [\<lparr>env_name = ''ENV'', env_value = ''prod''\<rparr>])
      | CreateNamespacedService ns svc \<Rightarrow>
          service_ports (service_spec svc) = [\<lparr>port = 8080, target_port = 80\<rparr>]
      | CreateNamespacedIngress ns ing \<Rightarrow>
          rules (ingress_spec ing) =
            [\<lparr>host = ''demo.example.com'',
           http = \<lparr>paths = [\<lparr>path = ''/'', path_type = ''Prefix'',
                             backend = \<lparr>backend_service =
                               \<lparr>backend_service_name = ''demo'',
                                backend_service_port = \<lparr>number = 8080\<rparr>\<rparr>\<rparr>\<rparr>]\<rparr>\<rparr>])"
proof
  fix ev
  assume "ev \<in> set (new_events api demo tr)"
  then have "fst ev \<in> set (planned_calls demo)" by (rule new_events_planned)
  then show "case fst ev of
        CreateNamespacedSecret ns sec \<Rightarrow> True
      | CreateNamespacedDeployment ns dep \<Rightarrow>
          deployment_replicas (deployment_spec dep) = 2 \<and>
          (\<exists>c. containers (template_spec (deployment_template (deployment_spec dep))) = [c] \<and>
               container_image c = ''nginx:1.25'' \<and>
               container_env c = [\<lparr>env_name = ''ENV'', env_value = ''prod''\<rparr>])
      | CreateNamespacedService ns svc \<Rightarrow>
          service_ports (service_spec svc) = [\<lparr>port = 8080, target_port = 80\<rparr>]
      | CreateNamespacedIngress ns ing \<Rightarrow>
          rules (ingress_spec ing) =
            [\<lparr>host = ''demo.example.com'',
           http = \<lparr>paths = [\<lparr>path = ''/'', path_type = ''Prefix'',
                             backend = \<lparr>backend_service =
                               \<lparr>backend_service_name = ''demo'',
                                backend_service_port = \<lparr>number = 8080\<rparr>\<rparr>\<rparr>\<rparr>]\<rparr>\<rparr>]"
  proof (cases rule: planned_calls_cases)
    case Secret
    then show ?thesis by simp
  next
    case Deployment
    then show ?thesis
      by (simp add: deployment_containers deployment_replicas_eq container_fields demo_def)
  next
    case Service
    then show ?thesis by (simp add: service_def demo_def)
  next
    case Ingress
    then show ?thesis by (simp add: ingress_def demo_def)
  qed
qed

text \<open>On a cluster that accepts every call, all three objects are submitted.\<close>

theorem deploy_app_demo_objects_witness:
  "\<exists>dep svc ing c. new_events accept_all demo [] =
      [(CreateNamespacedDeployment ''default'' dep, Inr ()),
       (CreateNamespacedService ''default'' svc, Inr ()),
       (CreateNamespacedIngress ''default'' ing, Inr ())] \<and>
    deployment_replicas (deployment_spec dep) = 2 \<and>
    containers (template_spec (deployment_template (deployment_spec dep))) = [c] \<and>
    container_image c = ''nginx:1.25'' \<and>
    container_env c = [\<lparr>env_name = ''ENV'', env_value = ''prod''\<rparr>] \<and>
    service_ports (service_spec svc) = [\<lparr>port = 8080, target_port = 80\<rparr>] \<and>
    rules (ingress_spec ing) =
      [\<lparr>host = ''demo.example.com'',
           http = \<lparr>paths = [\<lparr>path = ''/'', path_type = ''Prefix'',
                             backend = \<lparr>backend_service =
                               \<lparr>backend_service_name = ''demo'',
                                backend_service_port = \<lparr>number = 8080\<rparr>\<rparr>\<rparr>\<rparr>]\<rparr>\<rparr>]"
  using deploy_app_demo_objects [of accept_all "[]"] unfolding demo_accepted by simp

text \<open>
  C6. For every descriptor and on any cluster, every Service a run submits is the
  \<open>v1\<close> \<open>Service\<close> named \<open>app_name\<close>, of type \<open>ClusterIP\<close>, with selector
  \<open>app = app_name\<close> and the single port entry \<open>port = service_port, targetPort = 80\<close>;
  every Deployment it submits has a single container, whose only container port is 80,
  whatever \<open>service_port\<close> is.
\<close>

theorem deploy_app_service_and_container_port:
  "\<forall>ev \<in> set (new_events api config tr).
     (case fst ev of
        CreateNamespacedSecret ns sec \<Rightarrow> True
      | CreateNamespacedDeployment ns dep \<Rightarrow>
          (\<exists>c. containers (template_spec (deployment_template (deployment_spec dep))) = [c] \<and>
               container_ports c = [\<lparr>container_port = 80\<rparr>])
      | CreateNamespacedService ns svc \<Rightarrow>
          svc = \<lparr>service_api_version = ''v1'',
                 service_kind = ''Service'',
                 service_metadata = \<lparr>meta_name = Some (app_name config), meta_labels = None\<rparr>,
                 service_spec =
                   \<lparr>service_selector = [(''app'', app_name config)],
                    service_ports = [\<lparr>port = service_port config, target_port = 80\<rparr>],
                    service_type = ''ClusterIP''\<rparr>\<rparr>
      | CreateNamespacedIngress ns ing \<Rightarrow> True)"
proof
  fix ev
  assume "ev \<in> set (new_events api config tr)"
  then have "fst ev \<in> set (planned_calls config)" by (rule new_events_planned)
  then show "case fst ev of
        CreateNamespacedSecret ns sec \<Rightarrow> True
      | CreateNamespacedDeployment ns dep \<Rightarrow>
          (\<exists>c. containers (template_spec (deployment_template (deployment_spec dep))) = [c] \<and>
               container_ports c = [\<lparr>container_port = 80\<rparr>])
      | CreateNamespacedService ns svc \<Rightarrow>
          svc = \<lparr>service_api_version = ''v1'',
                 service_kind = ''Service'',
                 service_metadata = \<lparr>meta_name = Some (app_name config), meta_labels = None\<rparr>,
                 service_spec =
                   \<lparr>service_selector = [(''app'', app_name config)],
                    service_ports = [\<lparr>port = service_port config, target_port = 80\<rparr>],
                    service_type = ''ClusterIP''\<rparr>\<rparr>
      | CreateNamespacedIngress ns ing \<Rightarrow> True"
  proof (cases rule: planned_calls_cases)
    case Secret
    then show ?thesis by simp
  next
    case Deployment
    then show ?thesis by (simp add: deployment_containers container_fields)
  next
    case Service
    then show ?thesis by (simp add: service_def)
  next
    case Ingress
    then show ?thesis by simp
  qed
qed

text \<open>
  The round-trip example, whose service port is 8080, on a cluster that accepts every
  call.
\<close>

theorem deploy_app_service_and_container_port_witness:
  "\<exists>dep svc c rest. new_events accept_all demo [] =
      (CreateNamespacedDeployment ''default'' dep, Inr ()) #
      (CreateNamespacedService ''default'' svc, Inr ()) # rest \<and>
    containers (template_spec (deployment_template (deployment_spec dep))) = [c] \<and>
    container_ports c = [\<lparr>container_port = 80\<rparr>] \<and>
    svc = \<lparr>service_api_version = ''v1'', service_kind = ''Service'',
           service_metadata = \<lparr>meta_name = Some ''demo'', meta_labels = None\<rparr>,
           service_spec = \<lparr>service_selector = [(''app'', ''demo'')],
                           service_ports = [\<lparr>port = 8080, target_port = 80\<rparr>],
                           service_type = ''ClusterIP''\<rparr>\<rparr>"
proof -
  have f: "app_name demo = ''demo''" "service_port demo = 8080" by (simp_all add: demo_def)
  from deploy_app_service_and_container_port [of accept_all demo "[]"] show ?thesis
    unfolding demo_accepted f by simp
qed

section \<open>Failure and success responses\<close>

text \<open>
  C4. For every descriptor and on any cluster: a create call that raises is the last
  call of the run (no later call is attempted), the handler then raises the
  \<open>HTTPException\<close> with status 500 whose detail is \<open>str\<close> of that exception, and the
  response is HTTP 500 with the JSON object \<open>{"detail": str(e)}\<close>. When every call
  of the run returns, the handler returns the dict with \<open>status = success\<close> and
  \<open>message = Application <app_name> deployed successfully\<close>, and the response is HTTP
  200 with that JSON object.
\<close>

theorem deploy_app_short_circuit_response:
  "(\<forall>i e. i < length (new_events api config tr) \<longrightarrow>
       snd (new_events api config tr ! i) = Inl e \<longrightarrow>
         Suc i = length (new_events api config tr) \<and>
         fst (deploy_app api config tr) = Inl \<lparr>status_code = 500, detail = str e\<rparr> \<and>
         respond (fst (deploy_app api config tr)) =
           \<lparr>response_status = 500, response_content = JsonObject [(''detail'', str e)]\<rparr>) \<and>
   ((\<forall>ev \<in> set (new_events api config tr). snd ev = Inr ()) \<longrightarrow>
       fst (deploy_app api config tr) =
         Inr [(''status'', ''success''),
              (''message'', ''Application '' @ app_name config @ '' deployed successfully'')] \<and>
       respond (fst (deploy_app api config tr)) =
         \<lparr>response_status = 200,
          response_content = JsonObject
            [(''status'', ''success''),
             (''message'', ''Application '' @ app_name config @ '' deployed successfully'')]\<rparr>)"
proof (intro conjI allI impI)
  fix i e
  assume i: "i < length (new_events api config tr)"
    and e: "snd (new_events api config tr ! i) = Inl e"
  from attempt_error_last [of i api tr "planned_calls config" e] i e
  have last: "Suc i = length (new_events api config tr)"
    and err: "first_error (new_events api config tr) = Some e"
    by (simp_all add: new_events_attempt)
  from last show "Suc i = length (new_events api config tr)" .
  from err show r: "fst (deploy_app api config tr) = Inl \<lparr>status_code = 500, detail = str e\<rparr>"
    by (simp add: deploy_app_result)
  show "respond (fst (deploy_app api config tr)) =
           \<lparr>response_status = 500, response_content = JsonObject [(''detail'', str e)]\<rparr>"
    by (simp add: r respond_def)
next
  assume ok: "\<forall>ev \<in> set (new_events api config tr). snd ev = Inr ()"
  from attempt_all_ok [of api tr "planned_calls config"] ok
  have "first_error (new_events api config tr) = None"
    by (simp add: new_events_attempt)
  then show r: "fst (deploy_app api config tr) =
         Inr [(''status'', ''success''),
              (''message'', ''Application '' @ app_name config @ '' deployed successfully'')]"
    by (simp add: deploy_app_result)
  show "respond (fst (deploy_app api config tr)) =
         \<lparr>response_status = 200,
          response_content = JsonObject
            [(''status'', ''success''),
             (''message'', ''Application '' @ app_name config @ '' deployed successfully'')]\<rparr>"
    by (simp add: r respond_def)
qed

text \<open>
  The round-trip example on a cluster that refuses the Service create (the Ingress
  create is then not attempted), and on one that accepts every call.
\<close>

theorem deploy_app_short_circuit_response_witness:
  "kinds (new_events (refuse_kind ServiceCall) demo []) = [DeploymentCall, ServiceCall] \<and>
   respond (fst (deploy_app (refuse_kind ServiceCall) demo [])) =
     \<lparr>response_status = 500, response_content = JsonObject [(''detail'', ''conflict'')]\<rparr> \<and>
   respond (fst (deploy_app accept_all demo [])) =
     \<lparr>response_status = 200,
      response_content = JsonObject
        [(''status'', ''success''), (''message'', ''Application demo deployed successfully'')]\<rparr>"
proof -
  have k: "kinds (new_events (refuse_kind ServiceCall) demo []) = [DeploymentCall, ServiceCall]"
    by (simp add: demo_refused_service)
  have i: "1 < length (new_events (refuse_kind ServiceCall) demo [])"
    and e: "snd (new_events (refuse_kind ServiceCall) demo [] ! 1) = Inl (PyException ''conflict'')"
    by (simp_all add: demo_refused_service)
  have ok: "\<forall>ev \<in> set (new_events accept_all demo []). snd ev = Inr ()"
    by (simp add: demo_accepted)
  have n: "app_name demo = ''demo''" by (simp add: demo_def)
  from deploy_app_short_circuit_response [of "refuse_kind ServiceCall" demo "[]"] i e
  have "respond (fst (deploy_app (refuse_kind ServiceCall) demo [])) =
     \<lparr>response_status = 500, response_content = JsonObject [(''detail'', ''conflict'')]\<rparr>"
    by fastforce
  moreover from deploy_app_short_circuit_response [of accept_all demo "[]"] ok n
  have "respond (fst (deploy_app accept_all demo [])) =
     \<lparr>response_status = 200,
      response_content = JsonObject
        [(''status'', ''success''), (''message'', ''Application demo deployed successfully'')]\<rparr>"
    by (simp add: respond_def)
  ultimately show ?thesis using k by simp
qed

section \<open>Schema validation\<close>

lemma missing_domain: "body_domain_address b = None \<Longrightarrow> ''domain_address'' \<in> set (missing_fields b)"
  by (simp add: missing_fields_def)

lemma missing_fields_secrets: "missing_fields (b\<lparr>body_secrets := s\<rparr>) = missing_fields b"
  by (simp add: missing_fields_def)

lemma validate_secrets_Inl:
  "AppConfig_validate b = Inl errs \<Longrightarrow> AppConfig_validate (b\<lparr>body_secrets := s\<rparr>) = Inl errs"
  by (simp add: AppConfig_validate_def missing_fields_secrets split: if_splits)

lemma validate_secrets_Inr:
  "AppConfig_validate b = Inr config \<Longrightarrow>
   AppConfig_validate (b\<lparr>body_secrets := s\<rparr>) = Inr (config\<lparr>secrets := s\<rparr>)"
  by (auto simp: AppConfig_validate_def missing_fields_secrets split: if_splits)

text \<open>
  C7, as amended. A request body that omits \<open>domain_address\<close> fails schema validation
  whatever its \<open>external_access\<close> is: \<open>domain_address\<close> is among the missing required
  fields, the response is 422 with the validation errors, and the handler is not run (no
  cluster call is made).
\<close>

theorem post_deploy_requires_domain_address:
  assumes "body_domain_address b = None"
  shows "AppConfig_validate b = Inl (missing_fields b) \<and>
         ''domain_address'' \<in> set (missing_fields b) \<and>
         post_deploy api b tr =
           (\<lparr>response_status = 422, response_content = ValidationErrors (missing_fields b)\<rparr>, tr)"
proof -
  from assms have m: "''domain_address'' \<in> set (missing_fields b)" by (rule missing_domain)
  then have "missing_fields b \<noteq> []" by auto
  then have v: "AppConfig_validate b = Inl (missing_fields b)"
    by (simp add: AppConfig_validate_def)
  then show ?thesis using m by (simp add: post_deploy_def)
qed

text \<open>
  A body that omits \<open>domain_address\<close> and sets \<open>external_access\<close> to false.
\<close>

theorem post_deploy_requires_domain_address_witness:
  "body_domain_address body_without_domain = None \<and>
   body_external_access body_without_domain = Some False \<and>
   AppConfig_validate body_without_domain = Inl [''domain_address''] \<and>
   post_deploy accept_all body_without_domain [] =
     (\<lparr>response_status = 422, response_content = ValidationErrors [''domain_address'']\<rparr>, [])"
proof -
  have h: "body_domain_address body_without_domain = None"
    by (simp add: body_without_domain_def)
  have m: "missing_fields body_without_domain = [''domain_address'']"
    by (simp add: missing_fields_def body_without_domain_def)
  from post_deploy_requires_domain_address [OF h, of accept_all "[]"] h show ?thesis
    unfolding m by (simp add: body_without_domain_def)
qed

text \<open>
  C7 as stated fails: the body above has \<open>external_access = false\<close> and every field but
  \<open>domain_address\<close> (and the optional \<open>secrets\<close>), and it does not pass validation.
\<close>

theorem post_deploy_requires_domain_address_counterexample:
  "body_domain_address body_without_domain = None \<and>
   body_external_access body_without_domain = Some False \<and>
   AppConfig_validate body_without_domain = Inl [''domain_address''] \<and>
   fst (post_deploy accept_all body_without_domain []) =
     \<lparr>response_status = 422, response_content = ValidationErrors [''domain_address'']\<rparr> \<and>
   snd (post_deploy accept_all body_without_domain []) = []"
  by (simp add: post_deploy_def AppConfig_validate_def missing_fields_def body_without_domain_def)

section \<open>Empty and absent secrets\<close>

lemma planned_calls_no_secrets:
  "planned_calls (config\<lparr>secrets := Some []\<rparr>) = planned_calls (config\<lparr>secrets := None\<rparr>)"
  by (simp add: planned_calls_def)

text \<open>
  C9. For every descriptor and on any cluster, the handler run with \<open>secrets\<close> equal to
  the empty mapping and run with \<open>secrets\<close> absent give the same result and the same
  trace of calls, and so do the two request bodies through the route; in such a run no
  Secret create is made and the single container of every Deployment submitted has no
  \<open>env_from\<close>.
\<close>

theorem deploy_app_empty_secrets_as_absent:
  "deploy_app api (config\<lparr>secrets := Some []\<rparr>) tr = deploy_app api (config\<lparr>secrets := None\<rparr>) tr \<and>
   post_deploy api (b\<lparr>body_secrets := Some []\<rparr>) tr = post_deploy api (b\<lparr>body_secrets := None\<rparr>) tr \<and>
   (\<forall>ev \<in> set (new_events api (config\<lparr>secrets := Some []\<rparr>) tr).
      (case fst ev of
         CreateNamespacedSecret ns sec \<Rightarrow> False
       | CreateNamespacedDeployment ns dep \<Rightarrow>
           (\<exists>c. containers (template_spec (deployment_template (deployment_spec dep))) = [c] \<and>
                container_env_from c = None)
       | CreateNamespacedService ns svc \<Rightarrow> True
       | CreateNamespacedIngress ns ing \<Rightarrow> True))"
proof (intro conjI ballI)
  show d: "deploy_app api (config\<lparr>secrets := Some []\<rparr>) tr =
      deploy_app api (config\<lparr>secrets := None\<rparr>) tr" for config :: "'a AppConfig"
    by (simp add: deploy_app_attempt planned_calls_no_secrets split: option.splits)
  show "post_deploy api (b\<lparr>body_secrets := Some []\<rparr>) tr =
      post_deploy api (b\<lparr>body_secrets := None\<rparr>) tr"
  proof (cases "AppConfig_validate b")
    case (Inl errs)
    then show ?thesis by (simp add: post_deploy_def validate_secrets_Inl)
  next
    case (Inr cfg)
    then show ?thesis by (simp add: post_deploy_def validate_secrets_Inr d)
  qed
next
  fix ev
  assume "ev \<in> set (new_events api (config\<lparr>secrets := Some []\<rparr>) tr)"
  then have "fst ev \<in> set (planned_calls (config\<lparr>secrets := Some []\<rparr>))"
    by (rule new_events_planned)
  then show "case fst ev of
         CreateNamespacedSecret ns sec \<Rightarrow> False
       | CreateNamespacedDeployment ns dep \<Rightarrow>
           (\<exists>c. containers (template_spec (deployment_template (deployment_spec dep))) = [c] \<and>
                container_env_from c = None)
       | CreateNamespacedService ns svc \<Rightarrow> True
       | CreateNamespacedIngress ns ing \<Rightarrow> True"
  proof (cases rule: planned_calls_cases)
    case Secret
    then show ?thesis by simp
  next
    case Deployment
    then show ?thesis by (simp add: deployment_containers container_env_from_none)
  next
    case Service
    then show ?thesis by simp
  next
    case Ingress
    then show ?thesis by simp
  qed
qed

text \<open>The round-trip example on a cluster that accepts every call.\<close>

theorem deploy_app_empty_secrets_as_absent_witness:
  "fst (deploy_app accept_all (demo\<lparr>secrets := Some []\<rparr>) []) =
     fst (deploy_app accept_all (demo\<lparr>secrets := None\<rparr>) []) \<and>
   kinds (snd (deploy_app accept_all (demo\<lparr>secrets := Some []\<rparr>) [])) =
     [DeploymentCall, ServiceCall, IngressCall] \<and>
   kinds (snd (deploy_app accept_all (demo\<lparr>secrets := None\<rparr>) [])) =
     [DeploymentCall, ServiceCall, IngressCall]"
proof -
  have "demo\<lparr>secrets := None\<rparr> = demo" by (simp add: demo_def)
  then have "kinds (snd (deploy_app accept_all (demo\<lparr>secrets := None\<rparr>) [])) =
     [DeploymentCall, ServiceCall, IngressCall]"
    by (simp add: deploy_app_trace demo_accepted)
  with deploy_app_empty_secrets_as_absent [of accept_all demo "[]"] show ?thesis by simp
qed

section \<open>The success response\<close>

lemma demo_secret_accepted:
  "new_events accept_all demo_secret [] = map (\<lambda>c. (c, Inr ())) (planned_calls demo_secret)"
  by (simp add: new_events_attempt planned_calls_def accept_all_def demo_secret_def demo_def)

text \<open>
  C10. For two descriptors with the same \<open>app_name\<close>, on any clusters and after any
  earlier calls: when every call of both runs returns, the two runs return the same
  result, hence the same response: the success dict, which mentions no field of the
  descriptor but \<open>app_name\<close>.
\<close>

theorem deploy_app_success_depends_on_app_name:
  assumes "app_name c1 = app_name c2"
    and "\<forall>ev \<in> set (new_events api1 c1 tr1). snd ev = Inr ()"
    and "\<forall>ev \<in> set (new_events api2 c2 tr2). snd ev = Inr ()"
  shows "fst (deploy_app api1 c1 tr1) = fst (deploy_app api2 c2 tr2) \<and>
         respond (fst (deploy_app api1 c1 tr1)) = respond (fst (deploy_app api2 c2 tr2)) \<and>
         fst (deploy_app api1 c1 tr1) =
           Inr [(''status'', ''success''),
                (''message'', ''Application '' @ app_name c1 @ '' deployed successfully'')]"
proof -
  from attempt_all_ok [of api1 tr1 "planned_calls c1"] assms(2)
  have "first_error (new_events api1 c1 tr1) = None" by (simp add: new_events_attempt)
  moreover from attempt_all_ok [of api2 tr2 "planned_calls c2"] assms(3)
  have "first_error (new_events api2 c2 tr2) = None" by (simp add: new_events_attempt)
  ultimately show ?thesis using assms(1) by (simp add: deploy_app_result)
qed

text \<open>
  The round-trip example with and without a secret: two different descriptors with the
  same name.
\<close>

theorem deploy_app_success_depends_on_app_name_witness:
  "app_name demo = app_name demo_secret \<and> demo \<noteq> demo_secret \<and>
   fst (deploy_app accept_all demo []) = fst (deploy_app accept_all demo_secret []) \<and>
   fst (deploy_app accept_all demo []) =
     Inr [(''status'', ''success''), (''message'', ''Application demo deployed successfully'')]"
proof -
  have h: "app_name demo = app_name demo_secret" by (simp add: demo_secret_def)
  have ne: "demo \<noteq> demo_secret" by (simp add: demo_secret_def demo_def)
  have ok1: "\<forall>ev \<in> set (new_events accept_all demo []). snd ev = Inr ()"
    by (simp add: demo_accepted)
  have ok2: "\<forall>ev \<in> set (new_events accept_all demo_secret []). snd ev = Inr ()"
    unfolding demo_secret_accepted by simp
  have n: "app_name demo = ''demo''" by (simp add: demo_def)
  from deploy_app_success_depends_on_app_name [OF h ok1 ok2]
  have a: "fst (deploy_app accept_all demo []) = fst (deploy_app accept_all demo_secret [])"
    and b: "fst (deploy_app accept_all demo []) =
      Inr [(''status'', ''success''),
           (''message'', ''Application '' @ app_name demo @ '' deployed successfully'')]"
    by blast+
  from b have "fst (deploy_app accept_all demo []) =
     Inr [(''status'', ''success''), (''message'', ''Application demo deployed successfully'')]"
    by (simp add: n)
  with h ne a show ?thesis by blast
qed

end
